theory Spec2Isabelle
  imports Main "HOL-Library.Word"
begin

section \<open>Data model of consumer.go\<close>

type_synonym bytes = "8 word list"
type_synonym error = string
type_synonym handler = nat

text \<open>
  ConsumerDump is declared outside consumer.go; it and ConsumerStat are only decoded
  and handed back, never read, and are kept as the bytes they are decoded from.
\<close>

type_synonym ConsumerDump = bytes
type_synonym ConsumerStat = bytes

text \<open>ConsumerScore, ConsumerLayers and ConsumerTraceEventData, field by field.\<close>

record ConsumerScore =
  Score :: "16 word"
  ProducerScore :: "16 word"
  ProducerScores :: "16 word list"

record ConsumerLayers =
  SpatialLayer :: "8 word"
  TemporalLayer :: "8 word"

record ConsumerTraceEventData =
  Type :: string
  Timestamp :: "64 word"
  Direction :: string
  Info :: "(string \<times> string) list"

text \<open>
  internalData is declared outside consumer.go; the comment on consumerParams lists its
  four identifiers. consumerData is the struct of consumer.go (RtpParameters kept opaque).
\<close>

record internalData =
  RouterId :: string
  TransportId :: string
  ConsumerId :: string
  ProducerId :: string

record consumerData =
  data_ProducerId :: string
  data_Kind :: string
  data_Type :: string
  data_RtpParameters :: string

record consumerParams =
  p_internal :: internalData
  p_data :: consumerData
  p_appData :: string
  p_paused :: bool
  p_producerPaused :: bool
  p_score :: "ConsumerScore option"
  p_preferredLayers :: "ConsumerLayers option"

text \<open>
  The Consumer struct. A pointer field is an option (nil is None); a callback field is
  an optional handler identity (nil is None). The channel handles, the logger and the
  two event emitters are external objects: every call on them is recorded as an effect.
  The argument of an event is the value handed to the emitter; Score_ref_arg is the
  address of the local score variable, which the observer's score event receives.
\<close>

record Consumer =
  internal :: internalData
  data :: consumerData
  appData :: string
  paused :: bool
  closed :: "32 word"
  producerPaused :: bool
  priority :: "32 word"
  score :: "ConsumerScore option"
  preferredLayers :: "ConsumerLayers option"
  currentLayers :: "ConsumerLayers option"
  onClose :: "handler option"
  onProducerClose :: "handler option"
  onTransportClose :: "handler option"
  onPause :: "handler option"
  onResume :: "handler option"
  onProducerPause :: "handler option"
  onProducerResume :: "handler option"
  onScore :: "handler option"
  onLayersChange :: "handler option"
  onTrace :: "handler option"
  onRtp :: "handler option"

section \<open>Effects on the external collaborators\<close>

datatype arg =
  No_arg
| Score_arg "ConsumerScore option"
| Score_ref_arg "ConsumerScore option"
| Layers_arg "ConsumerLayers option"
| Trace_arg "ConsumerTraceEventData option"
| Bytes_arg bytes

datatype reqdata =
  No_data
| ConsumerId_data string
| Layers_data ConsumerLayers
| Priority_data "32 word"
| Types_data "string list"

datatype effect =
  Log_Info string
| Log_Error "error option" string
| Channel_Subscribe string
| PayloadChannel_Subscribe string
| Channel_Unsubscribe string
| PayloadChannel_Unsubscribe string
| Channel_Request string internalData reqdata
| Emit string arg
| SafeEmit string arg
| RemoveAllListeners
| Observer_SafeEmit string arg
| Observer_RemoveAllListeners
| Invoke handler arg

text \<open>
  The reply of channel.Request. Err() reads its error; what Unmarshal and json.Unmarshal
  decode is a parameter of the model (the decoders below), since neither the Response
  type nor the JSON library belongs to consumer.go.
\<close>

record response =
  resp_err :: "error option"
  resp_data :: bytes

definition Err :: "response \<Rightarrow> error option" where
  "Err r = resp_err r"

record decoders =
  json_score :: "bytes \<Rightarrow> error + ConsumerScore option"
  json_layers :: "bytes \<Rightarrow> error + ConsumerLayers option"
  json_trace :: "bytes \<Rightarrow> error + ConsumerTraceEventData option"
  unmarshal_priority :: "response \<Rightarrow> error + 32 word"
  unmarshal_layers :: "response \<Rightarrow> ConsumerLayers option \<Rightarrow> error option \<times> ConsumerLayers option"
  unmarshal_dump :: "response \<Rightarrow> error option \<times> ConsumerDump option"
  unmarshal_stats :: "response \<Rightarrow> error option \<times> ConsumerStat list"

text \<open>Calling a callback field: nothing when it is nil.\<close>

fun invoke :: "handler option \<Rightarrow> arg \<Rightarrow> effect list" where
  "invoke None a = []"
| "invoke (Some h) a = [Invoke h a]"

section \<open>Construction and getters\<close>

definition handleWorkerNotifications :: "Consumer \<Rightarrow> effect list" where
  "handleWorkerNotifications c =
     [Channel_Subscribe (ConsumerId (internal c)),
      PayloadChannel_Subscribe (ConsumerId (internal c))]"

definition newConsumer :: "consumerParams \<Rightarrow> Consumer \<times> effect list" where
  "newConsumer params =
     (let score0 = (case p_score params of
                      None \<Rightarrow> Some \<lparr>Score = 10, ProducerScore = 10, ProducerScores = []\<rparr>
                    | Some s \<Rightarrow> Some s);
          consumer = \<lparr>internal = p_internal params,
                      data = p_data params,
                      appData = p_appData params,
                      paused = p_paused params,
                      closed = 0,
                      producerPaused = p_producerPaused params,
                      priority = 1,
                      score = score0,
                      preferredLayers = p_preferredLayers params,
                      currentLayers = None,
                      onClose = None, onProducerClose = None, onTransportClose = None,
                      onPause = None, onResume = None, onProducerPause = None,
                      onProducerResume = None, onScore = None, onLayersChange = None,
                      onTrace = None, onRtp = None\<rparr>
      in (consumer, Log_Info ''constructor()'' # handleWorkerNotifications consumer))"

definition Id :: "Consumer \<Rightarrow> string" where
  "Id c = ConsumerId (internal c)"

definition Closed :: "Consumer \<Rightarrow> bool" where
  "Closed c = (closed c > 0)"

definition Paused :: "Consumer \<Rightarrow> bool" where
  "Paused c = paused c"

definition ProducerPaused :: "Consumer \<Rightarrow> bool" where
  "ProducerPaused c = producerPaused c"

definition Priority :: "Consumer \<Rightarrow> 32 word" where
  "Priority c = priority c"

definition Consumer_Score :: "Consumer \<Rightarrow> ConsumerScore option" where
  "Consumer_Score c = score c"

section \<open>Close, transportClosed\<close>

text \<open>close(): the observer's close event, then the OnClose callback.\<close>

definition close :: "Consumer \<Rightarrow> effect list" where
  "close c =
     [Observer_SafeEmit ''close'' No_arg, Observer_RemoveAllListeners] @ invoke (onClose c) No_arg"

text \<open>
  The branch of Close taken when the compare-and-swap on closed succeeded. The named
  result err is assigned from the reply and is what the bare return gives back.
\<close>

definition Close_body :: "Consumer \<Rightarrow> response \<Rightarrow> effect list" where
  "Close_body c r =
     [Log_Info ''close()'',
      Channel_Unsubscribe (ConsumerId (internal c)),
      PayloadChannel_Unsubscribe (ConsumerId (internal c)),
      Channel_Request ''transport.closeConsumer'' (internal c)
        (ConsumerId_data (ConsumerId (internal c)))]
     @ (case Err r of None \<Rightarrow> [] | Some e \<Rightarrow> [Log_Error (Some e) ''consumer close failed''])
     @ [Emit ''@close'' No_arg, RemoveAllListeners]
     @ close c"

definition Close :: "Consumer \<Rightarrow> response \<Rightarrow> Consumer \<times> effect list \<times> error option" where
  "Close c r =
     (if closed c = 0
      then (c\<lparr>closed := 1\<rparr>, Close_body c r, Err r)
      else (c, [], None))"

definition transportClosed_body :: "Consumer \<Rightarrow> effect list" where
  "transportClosed_body c =
     [Log_Info ''transportClosed()'',
      Channel_Unsubscribe (ConsumerId (internal c)),
      PayloadChannel_Unsubscribe (ConsumerId (internal c)),
      SafeEmit ''transportclose'' No_arg,
      RemoveAllListeners]
     @ invoke (onTransportClose c) No_arg
     @ close c"

definition transportClosed :: "Consumer \<Rightarrow> Consumer \<times> effect list" where
  "transportClosed c =
     (if closed c = 0
      then (c\<lparr>closed := 1\<rparr>, transportClosed_body c)
      else (c, []))"

section \<open>Pause, Resume and the parameter requests\<close>

definition Dump ::
  "decoders \<Rightarrow> Consumer \<Rightarrow> response
     \<Rightarrow> Consumer \<times> effect list \<times> error option \<times> ConsumerDump option" where
  "Dump d c r =
     (c,
      [Log_Info ''dump()'', Channel_Request ''consumer.dump'' (internal c) No_data],
      unmarshal_dump d r)"

definition GetStats ::
  "decoders \<Rightarrow> Consumer \<Rightarrow> response
     \<Rightarrow> Consumer \<times> effect list \<times> error option \<times> ConsumerStat list" where
  "GetStats d c r =
     (c,
      [Log_Info ''getStats()'', Channel_Request ''consumer.getStats'' (internal c) No_data],
      unmarshal_stats d r)"

definition Pause :: "Consumer \<Rightarrow> response \<Rightarrow> Consumer \<times> effect list \<times> error option" where
  "Pause c r =
     (let wasPaused = (paused c \<or> producerPaused c);
          sent = [Log_Info ''pause()'', Channel_Request ''consumer.pause'' (internal c) No_data]
      in case Err r of
           Some e \<Rightarrow> (c, sent, Some e)
         | None \<Rightarrow>
             (c\<lparr>paused := True\<rparr>,
              sent @ (if \<not> wasPaused
                      then Observer_SafeEmit ''pause'' No_arg # invoke (onPause c) No_arg
                      else []),
              None))"

definition Resume :: "Consumer \<Rightarrow> response \<Rightarrow> Consumer \<times> effect list \<times> error option" where
  "Resume c r =
     (let wasPaused = (paused c \<or> producerPaused c);
          sent = [Log_Info ''resume()'', Channel_Request ''consumer.resume'' (internal c) No_data]
      in case Err r of
           Some e \<Rightarrow> (c, sent, Some e)
         | None \<Rightarrow>
             (c\<lparr>paused := False\<rparr>,
              sent @ (if wasPaused \<and> \<not> producerPaused c
                      then Observer_SafeEmit ''resume'' No_arg # invoke (onResume c) No_arg
                      else []),
              None))"

definition SetPreferredLayers ::
  "decoders \<Rightarrow> Consumer \<Rightarrow> ConsumerLayers \<Rightarrow> response \<Rightarrow> Consumer \<times> effect list \<times> error option" where
  "SetPreferredLayers d c layers r =
     (let (err, pl) = unmarshal_layers d r (preferredLayers c)
      in (c\<lparr>preferredLayers := pl\<rparr>,
          [Log_Info ''setPreferredLayers()'',
           Channel_Request ''consumer.setPreferredLayers'' (internal c) (Layers_data layers)],
          err))"

definition SetPriority ::
  "decoders \<Rightarrow> Consumer \<Rightarrow> 32 word \<Rightarrow> response \<Rightarrow> Consumer \<times> effect list \<times> error option" where
  "SetPriority d c p r =
     (let sent = [Log_Info ''setPriority()'',
                  Channel_Request ''consumer.setPriority'' (internal c) (Priority_data p)]
      in case unmarshal_priority d r of
           Inl e \<Rightarrow> (c, sent, Some e)
         | Inr q \<Rightarrow> (c\<lparr>priority := q\<rparr>, sent, None))"

definition UnsetPriority ::
  "decoders \<Rightarrow> Consumer \<Rightarrow> response \<Rightarrow> Consumer \<times> effect list \<times> error option" where
  "UnsetPriority d c r =
     (case SetPriority d c 1 r of
        (c', es, err) \<Rightarrow> (c', Log_Info ''unsetPriority()'' # es, err))"

definition RequestKeyFrame :: "Consumer \<Rightarrow> response \<Rightarrow> Consumer \<times> effect list \<times> error option" where
  "RequestKeyFrame c r =
     (c,
      [Log_Info ''requestKeyFrame()'',
       Channel_Request ''consumer.requestKeyFrame'' (internal c) No_data],
      Err r)"

text \<open>EnableTraceEvent: a nil list of types is sent as the empty list.\<close>

definition EnableTraceEvent ::
  "Consumer \<Rightarrow> string list option \<Rightarrow> response \<Rightarrow> Consumer \<times> effect list \<times> error option" where
  "EnableTraceEvent c types r =
     (let types' = (case types of None \<Rightarrow> [] | Some ts \<Rightarrow> ts)
      in (c,
          [Log_Info ''enableTraceEvent()'',
           Channel_Request ''consumer.enableTraceEvent'' (internal c) (Types_data types')],
          Err r))"

section \<open>The two notification handlers registered by handleWorkerNotifications\<close>

definition channel_handler ::
  "decoders \<Rightarrow> Consumer \<Rightarrow> string \<Rightarrow> bytes \<Rightarrow> Consumer \<times> effect list" where
  "channel_handler d c event dat =
     (if event = ''producerclose'' then
        (if closed c = 0
         then (c\<lparr>closed := 1\<rparr>,
               [Channel_Unsubscribe (ConsumerId (internal c)),
                PayloadChannel_Unsubscribe (ConsumerId (internal c)),
                Emit ''@producerclose'' No_arg,
                SafeEmit ''producerclose'' No_arg,
                RemoveAllListeners]
               @ invoke (onProducerClose c) No_arg
               @ close c)
         else (c, []))
      else if event = ''producerpause'' then
        (if producerPaused c then (c, [])
         else
           (let wasPaused = (paused c \<or> producerPaused c)
            in (c\<lparr>producerPaused := True\<rparr>,
                [SafeEmit ''producerpause'' No_arg]
                @ invoke (onProducerPause c) No_arg
                @ (if \<not> wasPaused
                   then Observer_SafeEmit ''pause'' No_arg # invoke (onPause c) No_arg
                   else []))))
      else if event = ''producerresume'' then
        (if \<not> producerPaused c then (c, [])
         else
           (let wasPaused = (paused c \<or> producerPaused c)
            in (c\<lparr>producerPaused := False\<rparr>,
                [SafeEmit ''producerresume'' No_arg]
                @ invoke (onProducerResume c) No_arg
                @ (if wasPaused \<and> \<not> paused c
                   then Observer_SafeEmit ''resume'' No_arg # invoke (onResume c) No_arg
                   else []))))
      else if event = ''score'' then
        (case json_score d dat of
           Inl e \<Rightarrow> (c, [Log_Error (Some e) ''failed to unmarshal score''])
         | Inr sc \<Rightarrow>
             (c\<lparr>score := sc\<rparr>,
              [SafeEmit ''score'' (Score_arg sc), Observer_SafeEmit ''score'' (Score_ref_arg sc)]
              @ invoke (onScore c) (Score_arg sc)))
      else if event = ''layerschange'' then
        (case json_layers d dat of
           Inl e \<Rightarrow> (c, [Log_Error (Some e) ''failed to unmarshal layers''])
         | Inr ls \<Rightarrow>
             (c\<lparr>currentLayers := ls\<rparr>,
              [SafeEmit ''layerschange'' (Layers_arg ls),
               Observer_SafeEmit ''layerschange'' (Layers_arg ls)]
              @ invoke (onLayersChange c) (Layers_arg ls)))
      else if event = ''trace'' then
        (case json_trace d dat of
           Inl e \<Rightarrow> (c, [Log_Error (Some e) ''failed to unmarshal trace''])
         | Inr tr \<Rightarrow>
             (c,
              [SafeEmit ''trace'' (Trace_arg tr), Observer_SafeEmit ''trace'' (Trace_arg tr)]
              @ invoke (onTrace c) (Trace_arg tr)))
      else (c, [Log_Error None ''ignoring unknown event in channel listener'']))"

definition payload_handler ::
  "Consumer \<Rightarrow> string \<Rightarrow> bytes \<Rightarrow> bytes \<Rightarrow> Consumer \<times> effect list" where
  "payload_handler c event dat payload =
     (if event = ''rtp'' then
        (if Closed c then (c, [])
         else (c, SafeEmit ''rtp'' (Bytes_arg payload) # invoke (onRtp c) (Bytes_arg payload)))
      else (c, [Log_Error None ''ignoring unknown event in payload channel listener'']))"

section \<open>Callback setters\<close>

definition OnClose :: "Consumer \<Rightarrow> handler \<Rightarrow> Consumer" where
  "OnClose c h = c\<lparr>onClose := Some h\<rparr>"

definition OnProducerClose :: "Consumer \<Rightarrow> handler \<Rightarrow> Consumer" where
  "OnProducerClose c h = c\<lparr>onProducerClose := Some h\<rparr>"

definition OnTransportClose :: "Consumer \<Rightarrow> handler \<Rightarrow> Consumer" where
  "OnTransportClose c h = c\<lparr>onTransportClose := Some h\<rparr>"

definition OnPause :: "Consumer \<Rightarrow> handler \<Rightarrow> Consumer" where
  "OnPause c h = c\<lparr>onPause := Some h\<rparr>"

definition OnResume :: "Consumer \<Rightarrow> handler \<Rightarrow> Consumer" where
  "OnResume c h = c\<lparr>onResume := Some h\<rparr>"

definition OnProducerPause :: "Consumer \<Rightarrow> handler \<Rightarrow> Consumer" where
  "OnProducerPause c h = c\<lparr>onProducerPause := Some h\<rparr>"

definition OnProducerResume :: "Consumer \<Rightarrow> handler \<Rightarrow> Consumer" where
  "OnProducerResume c h = c\<lparr>onProducerResume := Some h\<rparr>"

definition OnScore :: "Consumer \<Rightarrow> handler \<Rightarrow> Consumer" where
  "OnScore c h = c\<lparr>onScore := Some h\<rparr>"

definition OnLayersChange :: "Consumer \<Rightarrow> handler \<Rightarrow> Consumer" where
  "OnLayersChange c h = c\<lparr>onLayersChange := Some h\<rparr>"

definition OnTrace :: "Consumer \<Rightarrow> handler \<Rightarrow> Consumer" where
  "OnTrace c h = c\<lparr>onTrace := Some h\<rparr>"

definition OnRtp :: "Consumer \<Rightarrow> handler \<Rightarrow> Consumer" where
  "OnRtp c h = c\<lparr>onRtp := Some h\<rparr>"

section \<open>Interleaved invocations of Close and transportClosed\<close>

text \<open>
  Close and transportClosed may be entered by several callers at once. Each invocation
  is a thread: its first step is the atomic compare-and-swap on closed (lines 322 and
  357); when the swap succeeds the thread goes on to perform the calls of its branch
  one at a time, and then returns; when it fails the thread returns at once with the
  zero value of its result. A schedule names, step by step, the thread that moves.
\<close>

datatype closer = Call_Close response | Call_transportClosed

datatype thread = Ready closer | Running "effect list" "error option" | Returned "error option"

record config =
  shared :: Consumer
  trace :: "effect list"
  threads :: "thread list"

fun closer_body :: "Consumer \<Rightarrow> closer \<Rightarrow> effect list" where
  "closer_body c (Call_Close r) = Close_body c r"
| "closer_body c Call_transportClosed = transportClosed_body c"

fun closer_result :: "closer \<Rightarrow> error option" where
  "closer_result (Call_Close r) = Err r"
| "closer_result Call_transportClosed = None"

fun thread_step :: "Consumer \<Rightarrow> thread \<Rightarrow> Consumer \<times> effect list \<times> thread" where
  "thread_step c (Ready k) =
     (if closed c = 0
      then (c\<lparr>closed := 1\<rparr>, [], Running (closer_body c k) (closer_result k))
      else (c, [], Returned None))"
| "thread_step c (Running [] e) = (c, [], Returned e)"
| "thread_step c (Running (x # xs) e) = (c, [x], Running xs e)"
| "thread_step c (Returned e) = (c, [], Returned e)"

definition step :: "nat \<Rightarrow> config \<Rightarrow> config" where
  "step i cfg =
     (if i < length (threads cfg)
      then (case thread_step (shared cfg) (threads cfg ! i) of
              (c', es, t') \<Rightarrow>
                \<lparr>shared = c', trace = trace cfg @ es, threads = (threads cfg)[i := t']\<rparr>)
      else cfg)"

definition run :: "nat list \<Rightarrow> config \<Rightarrow> config" where
  "run sched cfg = fold step sched cfg"

definition init :: "Consumer \<Rightarrow> closer list \<Rightarrow> config" where
  "init c calls = \<lparr>shared = c, trace = [], threads = map Ready calls\<rparr>"

fun is_Returned :: "thread \<Rightarrow> bool" where
  "is_Returned (Returned e) = True"
| "is_Returned t = False"

definition finished :: "config \<Rightarrow> bool" where
  "finished cfg = list_all is_Returned (threads cfg)"

text \<open>The same invocations one after the other, each run to its end before the next.\<close>

fun call_closer :: "Consumer \<Rightarrow> closer \<Rightarrow> Consumer \<times> effect list \<times> error option" where
  "call_closer c (Call_Close r) = Close c r"
| "call_closer c Call_transportClosed = (case transportClosed c of (c', es) \<Rightarrow> (c', es, None))"

fun call_closers :: "Consumer \<Rightarrow> closer list \<Rightarrow> Consumer \<times> effect list \<times> error option list" where
  "call_closers c [] = (c, [], [])"
| "call_closers c (k # ks) =
     (case call_closer c k of (c1, es1, e1) \<Rightarrow>
        case call_closers c1 ks of (c2, es2, errs) \<Rightarrow> (c2, es1 @ es2, e1 # errs))"

text \<open>Counting the calls a trace holds.\<close>

fun is_close_request :: "effect \<Rightarrow> bool" where
  "is_close_request (Channel_Request m i d) = (m = ''transport.closeConsumer'')"
| "is_close_request e = False"

fun is_channel_unsubscribe :: "effect \<Rightarrow> bool" where
  "is_channel_unsubscribe (Channel_Unsubscribe i) = True"
| "is_channel_unsubscribe e = False"

fun is_payload_unsubscribe :: "effect \<Rightarrow> bool" where
  "is_payload_unsubscribe (PayloadChannel_Unsubscribe i) = True"
| "is_payload_unsubscribe e = False"

fun is_close_event :: "effect \<Rightarrow> bool" where
  "is_close_event (Observer_SafeEmit n a) = (n = ''close'')"
| "is_close_event e = False"

definition occurrences :: "(effect \<Rightarrow> bool) \<Rightarrow> effect list \<Rightarrow> nat" where
  "occurrences P es = length (filter P es)"

text \<open>
  What every configuration reached after thread i won the swap satisfies: the other
  threads have not started or have returned nil, and the trace together with what
  thread i still has to do is the branch of its call.
\<close>

definition winner_inv :: "Consumer \<Rightarrow> closer list \<Rightarrow> nat \<Rightarrow> config \<Rightarrow> bool" where
  "winner_inv c calls i cfg \<longleftrightarrow>
     shared cfg = c\<lparr>closed := 1\<rparr> \<and> length (threads cfg) = length calls
   \<and> (\<forall>j < length calls. j \<noteq> i \<longrightarrow>
         threads cfg ! j = Ready (calls ! j) \<or> threads cfg ! j = Returned None)
   \<and> (\<exists>rest. trace cfg @ rest = closer_body c (calls ! i)
         \<and> (threads cfg ! i = Running rest (closer_result (calls ! i))
            \<or> rest = [] \<and> threads cfg ! i = Returned (closer_result (calls ! i))))"

section \<open>Pause and Resume overlapping notifications\<close>

text \<open>
  The Consumer struct has no lock. Pause reads both flags (line 399), then blocks in
  channel.Request (line 401), and only after the reply writes paused and decides on
  the observer event (lines 403 to 416); Resume has the same shape (lines 425 to 442).
  The handler registered on the channel runs whenever the channel delivers a
  notification, also while a call waits for its reply. Pause_read and Pause_write are
  the two halves of Pause around the request; Pause_overlapped runs the notifications
  ns between them, deliver_then_Pause and Pause_then_deliver are the two serial orders.
\<close>

definition Pause_read :: "Consumer \<Rightarrow> bool \<times> effect list" where
  "Pause_read c =
     (paused c \<or> producerPaused c,
      [Log_Info ''pause()'', Channel_Request ''consumer.pause'' (internal c) No_data])"

definition Pause_write :: "Consumer \<Rightarrow> bool \<Rightarrow> response \<Rightarrow> Consumer \<times> effect list \<times> error option" where
  "Pause_write c wasPaused r =
     (case Err r of
        Some e \<Rightarrow> (c, [], Some e)
      | None \<Rightarrow>
          (c\<lparr>paused := True\<rparr>,
           (if \<not> wasPaused
            then Observer_SafeEmit ''pause'' No_arg # invoke (onPause c) No_arg
            else []),
           None))"

definition Resume_read :: "Consumer \<Rightarrow> bool \<times> effect list" where
  "Resume_read c =
     (paused c \<or> producerPaused c,
      [Log_Info ''resume()'', Channel_Request ''consumer.resume'' (internal c) No_data])"

definition Resume_write :: "Consumer \<Rightarrow> bool \<Rightarrow> response \<Rightarrow> Consumer \<times> effect list \<times> error option" where
  "Resume_write c wasPaused r =
     (case Err r of
        Some e \<Rightarrow> (c, [], Some e)
      | None \<Rightarrow>
          (c\<lparr>paused := False\<rparr>,
           (if wasPaused \<and> \<not> producerPaused c
            then Observer_SafeEmit ''resume'' No_arg # invoke (onResume c) No_arg
            else []),
           None))"

fun deliver :: "decoders \<Rightarrow> Consumer \<Rightarrow> (string \<times> bytes) list \<Rightarrow> Consumer \<times> effect list" where
  "deliver d c [] = (c, [])"
| "deliver d c ((event, dat) # ns) =
     (case channel_handler d c event dat of (c1, es1) \<Rightarrow>
        case deliver d c1 ns of (c2, es2) \<Rightarrow> (c2, es1 @ es2))"

definition Pause_overlapped ::
  "decoders \<Rightarrow> Consumer \<Rightarrow> (string \<times> bytes) list \<Rightarrow> response
     \<Rightarrow> Consumer \<times> effect list \<times> error option" where
  "Pause_overlapped d c ns r =
     (case Pause_read c of (wasPaused, sent) \<Rightarrow>
        case deliver d c ns of (c1, es1) \<Rightarrow>
          case Pause_write c1 wasPaused r of (c2, es2, err) \<Rightarrow> (c2, sent @ es1 @ es2, err))"

definition Resume_overlapped ::
  "decoders \<Rightarrow> Consumer \<Rightarrow> (string \<times> bytes) list \<Rightarrow> response
     \<Rightarrow> Consumer \<times> effect list \<times> error option" where
  "Resume_overlapped d c ns r =
     (case Resume_read c of (wasPaused, sent) \<Rightarrow>
        case deliver d c ns of (c1, es1) \<Rightarrow>
          case Resume_write c1 wasPaused r of (c2, es2, err) \<Rightarrow> (c2, sent @ es1 @ es2, err))"

definition deliver_then_Pause ::
  "decoders \<Rightarrow> Consumer \<Rightarrow> (string \<times> bytes) list \<Rightarrow> response
     \<Rightarrow> Consumer \<times> effect list \<times> error option" where
  "deliver_then_Pause d c ns r =
     (case deliver d c ns of (c1, es1) \<Rightarrow>
        case Pause c1 r of (c2, es2, err) \<Rightarrow> (c2, es1 @ es2, err))"

definition Pause_then_deliver ::
  "decoders \<Rightarrow> Consumer \<Rightarrow> (string \<times> bytes) list \<Rightarrow> response
     \<Rightarrow> Consumer \<times> effect list \<times> error option" where
  "Pause_then_deliver d c ns r =
     (case Pause c r of (c1, es1, err) \<Rightarrow>
        case deliver d c1 ns of (c2, es2) \<Rightarrow> (c2, es1 @ es2, err))"

definition deliver_then_Resume ::
  "decoders \<Rightarrow> Consumer \<Rightarrow> (string \<times> bytes) list \<Rightarrow> response
     \<Rightarrow> Consumer \<times> effect list \<times> error option" where
  "deliver_then_Resume d c ns r =
     (case deliver d c ns of (c1, es1) \<Rightarrow>
        case Resume c1 r of (c2, es2, err) \<Rightarrow> (c2, es1 @ es2, err))"

section \<open>Concrete inputs\<close>

definition params0 :: consumerParams where
  "params0 =
     \<lparr>p_internal = \<lparr>RouterId = ''r1'', TransportId = ''t1'', ConsumerId = ''c1'',
                     ProducerId = ''p1''\<rparr>,
      p_data = \<lparr>data_ProducerId = ''p1'', data_Kind = ''video'', data_Type = ''simple'',
                 data_RtpParameters = []\<rparr>,
      p_appData = [],
      p_paused = False,
      p_producerPaused = False,
      p_score = None,
      p_preferredLayers = None\<rparr>"

definition consumer0 :: Consumer where
  "consumer0 = OnRtp (OnResume (OnPause (OnClose (fst (newConsumer params0)) 1) 2) 3) 4"

definition reply_ok :: response where
  "reply_ok = \<lparr>resp_err = None, resp_data = []\<rparr>"

definition reply_failed :: response where
  "reply_failed = \<lparr>resp_err = Some ''request timeout'', resp_data = []\<rparr>"

definition score0 :: ConsumerScore where
  "score0 = \<lparr>Score = 5, ProducerScore = 7, ProducerScores = [7, 3]\<rparr>"

definition decoders0 :: decoders where
  "decoders0 =
     \<lparr>json_score = (\<lambda>b. if b = [] then Inl ''unexpected end of JSON input''
                          else Inr (Some score0)),
      json_layers = (\<lambda>b. Inr None),
      json_trace = (\<lambda>b. Inr None),
      unmarshal_priority = (\<lambda>r. case resp_err r of Some e \<Rightarrow> Inl e | None \<Rightarrow> Inr 3),
      unmarshal_layers = (\<lambda>r l. (resp_err r, l)),
      unmarshal_dump = (\<lambda>r. (resp_err r, None)),
      unmarshal_stats = (\<lambda>r. (resp_err r, []))\<rparr>"

text \<open>The same decoders, with a reply to setPreferredLayers that carries layers.\<close>

definition decoders1 :: decoders where
  "decoders1 =
     decoders0\<lparr>unmarshal_layers :=
       (\<lambda>r l. case resp_err r of
                 Some e \<Rightarrow> (Some e, l)
               | None \<Rightarrow> (None, Some \<lparr>SpatialLayer = 2, TemporalLayer = 1\<rparr>))\<rparr>"

definition calls0 :: "closer list" where
  "calls0 = [Call_Close reply_ok, Call_transportClosed, Call_Close reply_failed]"

definition sched0 :: "nat list" where
  "sched0 = [0, 1, 1, 2, 1, 1, 1, 1, 1, 1, 1]"

definition sched1 :: "nat list" where
  "sched1 = [2, 1, 2, 2, 0, 2, 2, 2, 2, 2, 2, 2, 2]"

lemmas ex_defs = params0_def consumer0_def reply_ok_def reply_failed_def newConsumer_def
  handleWorkerNotifications_def Err_def score0_def decoders0_def OnClose_def OnPause_def
  OnResume_def OnRtp_def

section \<open>Auxiliary facts\<close>

lemma closer_body_counts:
  "occurrences is_close_request (closer_body c k)
     = (case k of Call_Close r \<Rightarrow> 1 | Call_transportClosed \<Rightarrow> 0)"
  "occurrences is_channel_unsubscribe (closer_body c k) = 1"
  "occurrences is_payload_unsubscribe (closer_body c k) = 1"
  "occurrences is_close_event (closer_body c k) = 1"
  by (cases k; cases "onClose c"; cases "onTransportClose c";
      simp add: occurrences_def Close_body_def transportClosed_body_def close_def
        split: option.splits)+

lemma occurrences_prefix: "xs @ ys = zs \<Longrightarrow> occurrences P xs \<le> occurrences P zs"
  by (auto simp: occurrences_def)

lemma call_closers_closed:
  "closed c \<noteq> 0 \<Longrightarrow> call_closers c ks = (c, [], replicate (length ks) None)"
proof (induction ks)
  case Nil
  show ?case by simp
next
  case (Cons k ks)
  then show ?case by (cases k) (simp_all add: Close_def transportClosed_def)
qed

lemma call_closers_first:
  assumes "closed c = 0"
  shows "call_closers c (k # ks)
           = (c\<lparr>closed := 1\<rparr>, closer_body c k, closer_result k # replicate (length ks) None)"
proof -
  have "closed (c\<lparr>closed := 1\<rparr>) \<noteq> 0" by simp
  from call_closers_closed [OF this, of ks] assms show ?thesis
    by (cases k) (simp_all add: Close_def transportClosed_def)
qed

lemma finished_nth:
  "finished cfg \<Longrightarrow> j < length (threads cfg) \<Longrightarrow> is_Returned (threads cfg ! j)"
  by (simp add: finished_def list_all_length)

text \<open>The thread that moves first wins the swap.\<close>

lemma winner_inv_init:
  assumes "closed c = 0" "i < length calls"
  shows "winner_inv c calls i (step i (init c calls))"
  using assms by (auto simp: winner_inv_def step_def init_def)

text \<open>No later step of any thread breaks the invariant.\<close>

lemma winner_inv_step:
  assumes "winner_inv c calls i cfg" "i < length calls"
  shows "winner_inv c calls i (step j cfg)"
proof (cases "j < length calls")
  case False
  with assms show ?thesis by (simp add: winner_inv_def step_def)
next
  case jlt: True
  show ?thesis
  proof (cases "j = i")
    case True
    from assms obtain rest where
      sh: "shared cfg = c\<lparr>closed := 1\<rparr>" and len: "length (threads cfg) = length calls"
      and others: "\<forall>j < length calls. j \<noteq> i \<longrightarrow>
         threads cfg ! j = Ready (calls ! j) \<or> threads cfg ! j = Returned None"
      and tr: "trace cfg @ rest = closer_body c (calls ! i)"
      and mine: "threads cfg ! i = Running rest (closer_result (calls ! i))
            \<or> rest = [] \<and> threads cfg ! i = Returned (closer_result (calls ! i))"
      by (auto simp: winner_inv_def)
    from mine show ?thesis
    proof
      assume r: "threads cfg ! i = Running rest (closer_result (calls ! i))"
      show ?thesis
      proof (cases rest)
        case Nil
        with r sh len others tr True jlt show ?thesis
          by (auto simp: winner_inv_def step_def)
      next
        case (Cons x xs)
        with r sh len others tr True jlt show ?thesis
          by (auto simp: winner_inv_def step_def)
      qed
    next
      assume "rest = [] \<and> threads cfg ! i = Returned (closer_result (calls ! i))"
      with sh len others tr True jlt show ?thesis
        by (auto simp: winner_inv_def step_def)
    qed
  next
    case False
    from assms have sh: "shared cfg = c\<lparr>closed := 1\<rparr>"
      and len: "length (threads cfg) = length calls"
      and j: "threads cfg ! j = Ready (calls ! j) \<or> threads cfg ! j = Returned None"
      using jlt False by (auto simp: winner_inv_def)
    from j show ?thesis
    proof
      assume "threads cfg ! j = Ready (calls ! j)"
      with assms sh len False jlt show ?thesis
        by (auto simp: winner_inv_def step_def nth_list_update)
    next
      assume "threads cfg ! j = Returned None"
      with assms sh len False jlt show ?thesis
        by (auto simp: winner_inv_def step_def nth_list_update)
    qed
  qed
qed

lemma winner_inv_run:
  assumes "i < length calls"
  shows "winner_inv c calls i cfg \<Longrightarrow> winner_inv c calls i (run sched cfg)"
  unfolding run_def
  by (induction sched arbitrary: cfg) (simp_all add: winner_inv_step [OF _ assms])

lemma winner_inv_schedule:
  assumes "closed c = 0" "i < length calls"
  shows "winner_inv c calls i (run (i # sched) (init c calls))"
  using winner_inv_run [OF assms(2) winner_inv_init [OF assms], of sched] by (simp add: run_def)

text \<open>
  A thread scheduled alone does what the function does: the thread model agrees with
  Close and transportClosed, whatever the closed flag holds when the call starts.
\<close>

lemma step_returned:
  "step 0 \<lparr>shared = c, trace = t, threads = [Returned e]\<rparr>
     = \<lparr>shared = c, trace = t, threads = [Returned e]\<rparr>"
  by (simp add: step_def)

lemma run_returned:
  "run (replicate n 0) \<lparr>shared = c, trace = t, threads = [Returned e]\<rparr>
     = \<lparr>shared = c, trace = t, threads = [Returned e]\<rparr>"
  by (induction n) (simp_all add: run_def step_returned)

lemma run_running:
  "run (replicate (Suc (length xs)) 0) \<lparr>shared = c, trace = t, threads = [Running xs e]\<rparr>
     = \<lparr>shared = c, trace = t @ xs, threads = [Returned e]\<rparr>"
proof (induction xs arbitrary: t)
  case Nil
  show ?case by (simp add: run_def step_def)
next
  case (Cons x xs)
  have "step 0 \<lparr>shared = c, trace = t, threads = [Running (x # xs) e]\<rparr>
          = \<lparr>shared = c, trace = t @ [x], threads = [Running xs e]\<rparr>"
    by (simp add: step_def)
  with Cons.IH [of "t @ [x]"] show ?case by (simp add: run_def)
qed

lemma lone_thread_is_call:
  "run (replicate (length (closer_body c k) + 2) 0) (init c [k])
     = (case call_closer c k of
          (c', es, err) \<Rightarrow> \<lparr>shared = c', trace = es, threads = [Returned err]\<rparr>)"
proof (cases "closed c = 0")
  case True
  have s: "step 0 (init c [k])
          = \<lparr>shared = c\<lparr>closed := 1\<rparr>, trace = [],
             threads = [Running (closer_body c k) (closer_result k)]\<rparr>"
    using True by (simp add: step_def init_def)
  have "run (replicate (length (closer_body c k) + 2) 0) (init c [k])
          = run (replicate (Suc (length (closer_body c k))) 0) (step 0 (init c [k]))"
    by (simp add: run_def)
  also have "\<dots> = \<lparr>shared = c\<lparr>closed := 1\<rparr>, trace = closer_body c k,
                     threads = [Returned (closer_result k)]\<rparr>"
    unfolding s using run_running [of "closer_body c k" "c\<lparr>closed := 1\<rparr>" "[]" "closer_result k"]
    by simp
  finally show ?thesis using True
    by (cases k) (simp_all add: Close_def transportClosed_def)
next
  case False
  have s: "step 0 (init c [k]) = \<lparr>shared = c, trace = [], threads = [Returned None]\<rparr>"
    using False by (simp add: step_def init_def)
  have "run (replicate (length (closer_body c k) + 2) 0) (init c [k])
          = run (replicate (Suc (length (closer_body c k))) 0) (step 0 (init c [k]))"
    by (simp add: run_def)
  also have "\<dots> = \<lparr>shared = c, trace = [], threads = [Returned None]\<rparr>"
    unfolding s by (rule run_returned)
  finally show ?thesis using False
    by (cases k) (simp_all add: Close_def transportClosed_def)
qed

text \<open>The two schedules of the concrete inputs, evaluated.\<close>

lemma run_sched0:
  "finished (run (1 # sched0) (init consumer0 calls0))
   \<and> occurrences is_close_request (trace (run (1 # sched0) (init consumer0 calls0))) = 0
   \<and> occurrences is_channel_unsubscribe (trace (run (1 # sched0) (init consumer0 calls0))) = 1
   \<and> occurrences is_payload_unsubscribe (trace (run (1 # sched0) (init consumer0 calls0))) = 1
   \<and> occurrences is_close_event (trace (run (1 # sched0) (init consumer0 calls0))) = 1
   \<and> threads (run (1 # sched0) (init consumer0 calls0))
        = [Returned None, Returned None, Returned None]"
  by code_simp

lemma run_sched1:
  "finished (run (2 # sched1) (init consumer0 calls0))
   \<and> occurrences is_close_request (trace (run (2 # sched1) (init consumer0 calls0))) = 1
   \<and> occurrences is_channel_unsubscribe (trace (run (2 # sched1) (init consumer0 calls0))) = 1
   \<and> occurrences is_payload_unsubscribe (trace (run (2 # sched1) (init consumer0 calls0))) = 1
   \<and> occurrences is_close_event (trace (run (2 # sched1) (init consumer0 calls0))) = 1
   \<and> threads (run (2 # sched1) (init consumer0 calls0))
        = [Returned None, Returned None, Returned (Some ''request timeout'')]"
  by code_simp

text \<open>The notification handler leaves alone what Pause and Resume read besides producerPaused.\<close>

lemma channel_handler_keeps:
  "paused (fst (channel_handler d c event dat)) = paused c"
  "internal (fst (channel_handler d c event dat)) = internal c"
  "onPause (fst (channel_handler d c event dat)) = onPause c"
  "onResume (fst (channel_handler d c event dat)) = onResume c"
  by (simp_all add: channel_handler_def Let_def split: sum.splits)

lemma deliver_keeps:
  "paused (fst (deliver d c ns)) = paused c
   \<and> internal (fst (deliver d c ns)) = internal c
   \<and> onPause (fst (deliver d c ns)) = onPause c
   \<and> onResume (fst (deliver d c ns)) = onResume c"
proof (induction ns arbitrary: c)
  case Nil
  show ?case by simp
next
  case (Cons n ns)
  obtain event dat where n: "n = (event, dat)" by (cases n)
  obtain c1 es1 where h: "channel_handler d c event dat = (c1, es1)"
    by (cases "channel_handler d c event dat")
  from channel_handler_keeps [of d c event dat] h
  have k: "paused c1 = paused c" "internal c1 = internal c" "onPause c1 = onPause c"
    "onResume c1 = onResume c" by simp_all
  obtain c2 es2 where t: "deliver d c1 ns = (c2, es2)" by (cases "deliver d c1 ns")
  from Cons.IH [of c1] k t show ?case
    by (simp add: n h)
qed

text \<open>The two halves put together with nothing in between are Pause, and Resume.\<close>

lemma Pause_split:
  "Pause c r = (case Pause_read c of (wasPaused, sent) \<Rightarrow>
                  case Pause_write c wasPaused r of (c', es, err) \<Rightarrow> (c', sent @ es, err))"
  by (simp add: Pause_def Pause_read_def Pause_write_def Let_def split: option.splits)

lemma Resume_split:
  "Resume c r = (case Resume_read c of (wasPaused, sent) \<Rightarrow>
                  case Resume_write c wasPaused r of (c', es, err) \<Rightarrow> (c', sent @ es, err))"
  by (simp add: Resume_def Resume_read_def Resume_write_def Let_def split: option.splits)

text \<open>A score notification handled between the two halves of a Pause, evaluated.\<close>

lemma overlap_score_eval:
  "producerPaused (fst (deliver decoders0 consumer0 [(''score'', [123])])) = producerPaused consumer0
   \<and> fst (snd (Pause_overlapped decoders0 consumer0 [(''score'', [123])] reply_ok))
       = [Log_Info ''pause()'', Channel_Request ''consumer.pause'' (internal consumer0) No_data,
          SafeEmit ''score'' (Score_arg (Some score0)),
          Observer_SafeEmit ''score'' (Score_ref_arg (Some score0)),
          Observer_SafeEmit ''pause'' No_arg, Invoke 2 No_arg]
   \<and> fst (snd (deliver_then_Pause decoders0 consumer0 [(''score'', [123])] reply_ok))
       = [SafeEmit ''score'' (Score_arg (Some score0)),
          Observer_SafeEmit ''score'' (Score_ref_arg (Some score0)),
          Log_Info ''pause()'', Channel_Request ''consumer.pause'' (internal consumer0) No_data,
          Observer_SafeEmit ''pause'' No_arg, Invoke 2 No_arg]"
  by code_simp

text \<open>What each local call sends, stores and returns, on any consumer.\<close>

lemma Pause_Resume_any_closed:
  "Channel_Request ''consumer.pause'' (internal c) No_data \<in> set (fst (snd (Pause c r)))"
  "snd (snd (Pause c r)) = Err r"
  "Err r = None \<longrightarrow> fst (Pause c r) = c\<lparr>paused := True\<rparr>"
  "Err r \<noteq> None \<longrightarrow> fst (Pause c r) = c"
  "Channel_Request ''consumer.resume'' (internal c) No_data \<in> set (fst (snd (Resume c r)))"
  "snd (snd (Resume c r)) = Err r"
  "Err r = None \<longrightarrow> fst (Resume c r) = c\<lparr>paused := False\<rparr>"
  "Err r \<noteq> None \<longrightarrow> fst (Resume c r) = c"
  by (auto simp: Pause_def Resume_def Let_def split: option.splits)

lemma SetPriority_any_closed:
  "Channel_Request ''consumer.setPriority'' (internal c) (Priority_data p)
        \<in> set (fst (snd (SetPriority d c p r)))"
  "unmarshal_priority d r = Inr q \<longrightarrow>
        fst (SetPriority d c p r) = c\<lparr>priority := q\<rparr> \<and> snd (snd (SetPriority d c p r)) = None"
  "unmarshal_priority d r = Inl e \<longrightarrow>
        fst (SetPriority d c p r) = c \<and> snd (snd (SetPriority d c p r)) = Some e"
  "Channel_Request ''consumer.setPriority'' (internal c) (Priority_data 1)
        \<in> set (fst (snd (UnsetPriority d c r)))"
  "unmarshal_priority d r = Inr q \<longrightarrow>
        fst (UnsetPriority d c r) = c\<lparr>priority := q\<rparr> \<and> snd (snd (UnsetPriority d c r)) = None"
  "unmarshal_priority d r = Inl e \<longrightarrow>
        fst (UnsetPriority d c r) = c \<and> snd (snd (UnsetPriority d c r)) = Some e"
  by (auto simp: SetPriority_def UnsetPriority_def Let_def split: sum.splits)

lemma requests_any_closed:
  "Channel_Request ''consumer.setPreferredLayers'' (internal c) (Layers_data layers)
        \<in> set (fst (snd (SetPreferredLayers d c layers r)))"
  "fst (SetPreferredLayers d c layers r)
        = c\<lparr>preferredLayers := snd (unmarshal_layers d r (preferredLayers c))\<rparr>"
  "snd (snd (SetPreferredLayers d c layers r)) = fst (unmarshal_layers d r (preferredLayers c))"
  "Channel_Request ''consumer.requestKeyFrame'' (internal c) No_data
        \<in> set (fst (snd (RequestKeyFrame c r)))"
  "fst (RequestKeyFrame c r) = c"
  "snd (snd (RequestKeyFrame c r)) = Err r"
  "Channel_Request ''consumer.enableTraceEvent'' (internal c)
        (Types_data (case types of None \<Rightarrow> [] | Some ts \<Rightarrow> ts))
        \<in> set (fst (snd (EnableTraceEvent c types r)))"
  "fst (EnableTraceEvent c types r) = c"
  "snd (snd (EnableTraceEvent c types r)) = Err r"
  "Channel_Request ''consumer.dump'' (internal c) No_data \<in> set (fst (snd (Dump d c r)))"
  "fst (Dump d c r) = c"
  "snd (snd (Dump d c r)) = unmarshal_dump d r"
  "Channel_Request ''consumer.getStats'' (internal c) No_data
        \<in> set (fst (snd (GetStats d c r)))"
  "fst (GetStats d c r) = c"
  "snd (snd (GetStats d c r)) = unmarshal_stats d r"
  by (simp_all add: SetPreferredLayers_def RequestKeyFrame_def EnableTraceEvent_def Dump_def
        GetStats_def Let_def split: prod.splits)

text \<open>
  None of the local calls reads the closed flag: a call on c does what the call on c
  with closed reset to 0 does, closed put back afterwards.
\<close>

lemma closed_flag_not_read:
  "Pause c r = (case Pause (c\<lparr>closed := 0\<rparr>) r of (c', es, e) \<Rightarrow> (c'\<lparr>closed := closed c\<rparr>, es, e))"
  "Resume c r = (case Resume (c\<lparr>closed := 0\<rparr>) r of (c', es, e) \<Rightarrow> (c'\<lparr>closed := closed c\<rparr>, es, e))"
  "SetPriority d c p r
     = (case SetPriority d (c\<lparr>closed := 0\<rparr>) p r of (c', es, e) \<Rightarrow> (c'\<lparr>closed := closed c\<rparr>, es, e))"
  "UnsetPriority d c r
     = (case UnsetPriority d (c\<lparr>closed := 0\<rparr>) r of (c', es, e) \<Rightarrow> (c'\<lparr>closed := closed c\<rparr>, es, e))"
  "SetPreferredLayers d c layers r
     = (case SetPreferredLayers d (c\<lparr>closed := 0\<rparr>) layers r of
          (c', es, e) \<Rightarrow> (c'\<lparr>closed := closed c\<rparr>, es, e))"
  "RequestKeyFrame c r
     = (case RequestKeyFrame (c\<lparr>closed := 0\<rparr>) r of (c', es, e) \<Rightarrow> (c'\<lparr>closed := closed c\<rparr>, es, e))"
  "EnableTraceEvent c types r
     = (case EnableTraceEvent (c\<lparr>closed := 0\<rparr>) types r of
          (c', es, e) \<Rightarrow> (c'\<lparr>closed := closed c\<rparr>, es, e))"
  "Dump d c r = (case Dump d (c\<lparr>closed := 0\<rparr>) r of (c', es, e) \<Rightarrow> (c'\<lparr>closed := closed c\<rparr>, es, e))"
  "GetStats d c r
     = (case GetStats d (c\<lparr>closed := 0\<rparr>) r of (c', es, e) \<Rightarrow> (c'\<lparr>closed := closed c\<rparr>, es, e))"
  by (auto simp: Pause_def Resume_def SetPriority_def UnsetPriority_def SetPreferredLayers_def
        RequestKeyFrame_def EnableTraceEvent_def Dump_def GetStats_def Let_def
        split: option.splits sum.splits prod.splits)

section \<open>The claims\<close>

text \<open>
  C1. On a consumer that is not yet closed, whatever the number of Close and
  transportClosed invocations and however they interleave, only the invocation whose
  compare-and-swap comes first runs side effects. Run one after the other, the calls
  k # ks produce the effects of the branch of k alone and every later call returns
  nil. That branch holds exactly one transport.closeConsumer request when k is Close
  and none when it is transportClosed, and exactly one Unsubscribe on each channel and
  one observer close event. Under any schedule whose first step is thread i, the trace
  is at every moment a prefix of the branch of call i (so it never holds more of any
  call than the branch does), every other thread has either not started or returned
  nil, and once all threads have returned the trace is exactly that branch.
\<close>

theorem Close_transportClosed_once:
  assumes "closed c = 0" and "i < length calls"
  shows "call_closers c (k # ks)
           = (c\<lparr>closed := 1\<rparr>, closer_body c k, closer_result k # replicate (length ks) None)
   \<and> occurrences is_close_request (closer_body c k)
        = (case k of Call_Close r \<Rightarrow> 1 | Call_transportClosed \<Rightarrow> 0)
   \<and> occurrences is_channel_unsubscribe (closer_body c k) = 1
   \<and> occurrences is_payload_unsubscribe (closer_body c k) = 1
   \<and> occurrences is_close_event (closer_body c k) = 1
   \<and> (\<exists>rest. trace (run (i # sched) (init c calls)) @ rest = closer_body c (calls ! i))
   \<and> (\<forall>P. occurrences P (trace (run (i # sched) (init c calls)))
            \<le> occurrences P (closer_body c (calls ! i)))
   \<and> (\<forall>j < length calls. j \<noteq> i \<longrightarrow>
         threads (run (i # sched) (init c calls)) ! j = Ready (calls ! j)
       \<or> threads (run (i # sched) (init c calls)) ! j = Returned None)
   \<and> (finished (run (i # sched) (init c calls)) \<longrightarrow>
         trace (run (i # sched) (init c calls)) = closer_body c (calls ! i)
       \<and> shared (run (i # sched) (init c calls)) = c\<lparr>closed := 1\<rparr>
       \<and> threads (run (i # sched) (init c calls))
           = (map (\<lambda>k. Returned None) calls)[i := Returned (closer_result (calls ! i))])"
proof -
  let ?cfg = "run (i # sched) (init c calls)"
  let ?body = "closer_body c (calls ! i)"
  have "winner_inv c calls i ?cfg" by (rule winner_inv_schedule [OF assms])
  then obtain rest where
    sh: "shared ?cfg = c\<lparr>closed := 1\<rparr>" and len: "length (threads ?cfg) = length calls"
    and others: "\<forall>j < length calls. j \<noteq> i \<longrightarrow>
         threads ?cfg ! j = Ready (calls ! j) \<or> threads ?cfg ! j = Returned None"
    and tr: "trace ?cfg @ rest = ?body"
    and mine: "threads ?cfg ! i = Running rest (closer_result (calls ! i))
            \<or> rest = [] \<and> threads ?cfg ! i = Returned (closer_result (calls ! i))"
    unfolding winner_inv_def by blast
  have seq: "call_closers c (k # ks)
           = (c\<lparr>closed := 1\<rparr>, closer_body c k, closer_result k # replicate (length ks) None)"
    by (rule call_closers_first [OF assms(1)])
  have pre: "\<exists>rest. trace ?cfg @ rest = ?body" using tr by blast
  have le: "\<forall>P. occurrences P (trace ?cfg) \<le> occurrences P ?body"
    using occurrences_prefix [OF tr] by blast
  have fin: "finished ?cfg \<longrightarrow>
         trace ?cfg = ?body \<and> shared ?cfg = c\<lparr>closed := 1\<rparr>
       \<and> threads ?cfg = (map (\<lambda>k. Returned None) calls)[i := Returned (closer_result (calls ! i))]"
  proof
    assume f: "finished ?cfg"
    from finished_nth [OF f, of i] assms(2) len mine
    have r: "rest = []" and ti: "threads ?cfg ! i = Returned (closer_result (calls ! i))"
      by auto
    have "threads ?cfg ! j
            = ((map (\<lambda>k. Returned None) calls)[i := Returned (closer_result (calls ! i))]) ! j"
      if "j < length calls" for j
    proof (cases "j = i")
      case True
      with ti that show ?thesis by simp
    next
      case False
      from finished_nth [OF f, of j] that len have "is_Returned (threads ?cfg ! j)" by simp
      with others that False have "threads ?cfg ! j = Returned None" by auto
      with that False show ?thesis by simp
    qed
    then have "threads ?cfg
                 = (map (\<lambda>k. Returned None) calls)[i := Returned (closer_result (calls ! i))]"
      using len by (intro nth_equalityI) simp_all
    with tr r sh show "trace ?cfg = ?body \<and> shared ?cfg = c\<lparr>closed := 1\<rparr>
       \<and> threads ?cfg = (map (\<lambda>k. Returned None) calls)[i := Returned (closer_result (calls ! i))]"
      by simp
  qed
  from seq closer_body_counts [of c k] pre le others fin show ?thesis by blast
qed

text \<open>
  Three invocations on a fresh consumer, under two schedules: in the first
  transportClosed wins and no request is sent, in the second a Close whose request
  fails wins and one request is sent; both run every thread to its return.
\<close>

theorem Close_transportClosed_once_witness:
  "closed consumer0 = 0 \<and> 1 < length calls0 \<and> 2 < length calls0
   \<and> finished (run (1 # sched0) (init consumer0 calls0))
   \<and> trace (run (1 # sched0) (init consumer0 calls0)) = transportClosed_body consumer0
   \<and> occurrences is_close_request (trace (run (1 # sched0) (init consumer0 calls0))) = 0
   \<and> occurrences is_channel_unsubscribe (trace (run (1 # sched0) (init consumer0 calls0))) = 1
   \<and> occurrences is_payload_unsubscribe (trace (run (1 # sched0) (init consumer0 calls0))) = 1
   \<and> occurrences is_close_event (trace (run (1 # sched0) (init consumer0 calls0))) = 1
   \<and> threads (run (1 # sched0) (init consumer0 calls0))
        = [Returned None, Returned None, Returned None]
   \<and> finished (run (2 # sched1) (init consumer0 calls0))
   \<and> trace (run (2 # sched1) (init consumer0 calls0)) = Close_body consumer0 reply_failed
   \<and> occurrences is_close_request (trace (run (2 # sched1) (init consumer0 calls0))) = 1
   \<and> threads (run (2 # sched1) (init consumer0 calls0))
        = [Returned None, Returned None, Returned (Some ''request timeout'')]
   \<and> call_closers consumer0 calls0
        = (consumer0\<lparr>closed := 1\<rparr>, Close_body consumer0 reply_ok, [None, None, None])"
proof -
  have c0: "closed consumer0 = 0" by (simp add: ex_defs)
  have l1: "1 < length calls0" and l2: "2 < length calls0" by (simp_all add: calls0_def)
  have n: "calls0 ! 1 = Call_transportClosed" "calls0 ! 2 = Call_Close reply_failed"
    "calls0 = Call_Close reply_ok # [Call_transportClosed, Call_Close reply_failed]"
    by (simp_all add: calls0_def)
  have e: "Err reply_ok = None" by (simp add: ex_defs)
  from Close_transportClosed_once [OF c0 l1, of "Call_Close reply_ok"
      "[Call_transportClosed, Call_Close reply_failed]" sched0]
    Close_transportClosed_once [OF c0 l2, of "Call_Close reply_ok"
      "[Call_transportClosed, Call_Close reply_failed]" sched1]
    run_sched0 run_sched1 c0 l1 l2 n e
  show ?thesis by simp
qed

text \<open>
  C2, as the spec states it, fails: the request of a first Close fails, and Close
  hands the error back to its caller instead of returning success. Close assigns the
  reply's error to its named result err (line 332) and the bare return (line 341)
  returns it.
\<close>

theorem Close_failure_returned_counterexample:
  "closed consumer0 = 0 \<and> Err reply_failed = Some ''request timeout''
   \<and> snd (snd (Close consumer0 reply_failed)) = Some ''request timeout''
   \<and> snd (snd (Close consumer0 reply_failed)) \<noteq> None"
  by (simp add: ex_defs Close_def)

text \<open>
  C2, amended. For every consumer on which Close is invoked for the first time, if
  the transport.closeConsumer request fails with error e, the failure is logged and
  also returned to the caller as the result of Close; the local state still becomes
  closed (only the closed flag changes), and the close events are emitted: the
  internal close signal, the observer close event, and the OnClose callback when set.
\<close>

theorem Close_request_failure:
  "closed c = 0 \<Longrightarrow> Err r = Some e \<Longrightarrow>
   (case Close c r of (c', es, err) \<Rightarrow>
      err = Some e
    \<and> Log_Error (Some e) ''consumer close failed'' \<in> set es
    \<and> c' = c\<lparr>closed := 1\<rparr> \<and> Closed c'
    \<and> Emit ''@close'' No_arg \<in> set es
    \<and> Observer_SafeEmit ''close'' No_arg \<in> set es
    \<and> (\<forall>h. onClose c = Some h \<longrightarrow> Invoke h No_arg \<in> set es))"
  by (auto simp: Close_def Close_body_def close_def Closed_def)

theorem Close_request_failure_witness:
  "closed consumer0 = 0 \<and> Err reply_failed = Some ''request timeout''
   \<and> Closed (fst (Close consumer0 reply_failed))
   \<and> snd (snd (Close consumer0 reply_failed)) = Some ''request timeout''
   \<and> onClose consumer0 = Some 1
   \<and> Invoke 1 No_arg \<in> set (fst (snd (Close consumer0 reply_failed)))"
  using Close_request_failure [where c = consumer0 and r = reply_failed
      and e = "''request timeout''"]
  by (simp add: ex_defs Close_def Close_body_def close_def Closed_def)

text \<open>
  C3. For every consumer and every call to Pause: when the consumer.pause request
  fails, the consumer is left as it was and the error is returned; when it succeeds,
  paused becomes true (nothing else changes), no error is returned, and the observer
  pause event is emitted, and the OnPause callback (when set) called, if and only if
  neither paused nor producerPaused held before the call.
\<close>

theorem Pause_request_outcome:
  "(Err r \<noteq> None \<longrightarrow> fst (Pause c r) = c \<and> snd (snd (Pause c r)) = Err r)
   \<and> (Err r = None \<longrightarrow>
        fst (Pause c r) = c\<lparr>paused := True\<rparr>
      \<and> snd (snd (Pause c r)) = None
      \<and> (Observer_SafeEmit ''pause'' No_arg \<in> set (fst (snd (Pause c r)))
           \<longleftrightarrow> \<not> (paused c \<or> producerPaused c))
      \<and> (\<forall>h. onPause c = Some h \<longrightarrow>
            (Invoke h No_arg \<in> set (fst (snd (Pause c r)))
               \<longleftrightarrow> \<not> (paused c \<or> producerPaused c))))"
  by (auto simp: Pause_def Let_def split: option.splits)

theorem Pause_request_outcome_witness:
  "Err reply_failed \<noteq> None \<and> fst (Pause consumer0 reply_failed) = consumer0
   \<and> snd (snd (Pause consumer0 reply_failed)) = Some ''request timeout''
   \<and> Err reply_ok = None \<and> paused (fst (Pause consumer0 reply_ok))
   \<and> Observer_SafeEmit ''pause'' No_arg \<in> set (fst (snd (Pause consumer0 reply_ok)))
   \<and> onPause consumer0 = Some 2
   \<and> Invoke 2 No_arg \<in> set (fst (snd (Pause consumer0 reply_ok)))
   \<and> Observer_SafeEmit ''pause'' No_arg
        \<notin> set (fst (snd (Pause (consumer0\<lparr>producerPaused := True\<rparr>) reply_ok)))"
  using Pause_request_outcome [of reply_failed consumer0]
    Pause_request_outcome [of reply_ok consumer0]
    Pause_request_outcome [of reply_ok "consumer0\<lparr>producerPaused := True\<rparr>"]
  by (simp add: ex_defs)

text \<open>
  C4. For every consumer and every call to Resume whose consumer.resume request
  succeeds, paused becomes false (nothing else changes) and the observer resume event
  is emitted, and the OnResume callback (when set) called, if and only if the consumer
  was effectively paused before the call and producerPaused is false after it. With
  producerPaused true, a Pause followed by a Resume emits no observer event and calls
  no callback, whatever the two replies are.
\<close>

theorem Resume_request_outcome:
  "(Err r = None \<longrightarrow>
        fst (Resume c r) = c\<lparr>paused := False\<rparr>
      \<and> snd (snd (Resume c r)) = None
      \<and> (Observer_SafeEmit ''resume'' No_arg \<in> set (fst (snd (Resume c r)))
           \<longleftrightarrow> (paused c \<or> producerPaused c) \<and> \<not> producerPaused (fst (Resume c r)))
      \<and> (\<forall>h. onResume c = Some h \<longrightarrow>
            (Invoke h No_arg \<in> set (fst (snd (Resume c r)))
              \<longleftrightarrow> (paused c \<or> producerPaused c) \<and> \<not> producerPaused (fst (Resume c r)))))
   \<and> (producerPaused c \<longrightarrow>
        (case Pause c r1 of (c1, es1, e1) \<Rightarrow>
           case Resume c1 r2 of (c2, es2, e2) \<Rightarrow>
             (\<forall>n a. Observer_SafeEmit n a \<notin> set (es1 @ es2))
           \<and> (\<forall>h a. Invoke h a \<notin> set (es1 @ es2))))"
  by (auto simp: Pause_def Resume_def Let_def split: option.splits)

theorem Resume_request_outcome_witness:
  "Err reply_ok = None
   \<and> fst (Resume (consumer0\<lparr>paused := True\<rparr>) reply_ok) = consumer0\<lparr>paused := False\<rparr>
   \<and> Observer_SafeEmit ''resume'' No_arg
        \<in> set (fst (snd (Resume (consumer0\<lparr>paused := True\<rparr>) reply_ok)))
   \<and> Invoke 3 No_arg \<in> set (fst (snd (Resume (consumer0\<lparr>paused := True\<rparr>) reply_ok)))
   \<and> producerPaused (consumer0\<lparr>producerPaused := True\<rparr>)
   \<and> fst (snd (Pause (consumer0\<lparr>producerPaused := True\<rparr>) reply_ok))
       = [Log_Info ''pause()'', Channel_Request ''consumer.pause'' (internal consumer0) No_data]
   \<and> fst (snd (Resume (fst (Pause (consumer0\<lparr>producerPaused := True\<rparr>) reply_ok)) reply_ok))
       = [Log_Info ''resume()'', Channel_Request ''consumer.resume'' (internal consumer0) No_data]"
  using Resume_request_outcome [of reply_ok "consumer0\<lparr>paused := True\<rparr>" reply_ok reply_ok]
    Resume_request_outcome [of reply_ok "consumer0\<lparr>producerPaused := True\<rparr>" reply_ok reply_ok]
  by (simp add: ex_defs Pause_def Resume_def)

text \<open>
  C5. For every consumer state, a producerpause notification delivered a second time
  right after the first changes nothing and emits nothing, since producerPaused (set
  by the first) makes the handler leave at its guard; over both deliveries the
  observer pause event is emitted at most once. The same holds for producerresume and
  the observer resume event.
\<close>

theorem producer_notification_redelivery:
  "(case channel_handler d c ''producerpause'' dat of (c1, es1) \<Rightarrow>
      case channel_handler d c1 ''producerpause'' dat' of (c2, es2) \<Rightarrow>
        c2 = c1 \<and> es2 = [] \<and> producerPaused c1
        \<and> count_list (es1 @ es2) (Observer_SafeEmit ''pause'' No_arg) \<le> 1)
   \<and> (case channel_handler d c ''producerresume'' dat of (c1, es1) \<Rightarrow>
      case channel_handler d c1 ''producerresume'' dat' of (c2, es2) \<Rightarrow>
        c2 = c1 \<and> es2 = [] \<and> \<not> producerPaused c1
        \<and> count_list (es1 @ es2) (Observer_SafeEmit ''resume'' No_arg) \<le> 1)"
  by (cases "onProducerPause c"; cases "onProducerResume c"; cases "onPause c"; cases "onResume c")
     (simp_all add: channel_handler_def Let_def)

theorem producer_notification_redelivery_witness:
  "channel_handler decoders0 consumer0 ''producerpause'' []
     = (consumer0\<lparr>producerPaused := True\<rparr>,
        [SafeEmit ''producerpause'' No_arg, Observer_SafeEmit ''pause'' No_arg, Invoke 2 No_arg])
   \<and> channel_handler decoders0 (consumer0\<lparr>producerPaused := True\<rparr>) ''producerpause'' []
     = (consumer0\<lparr>producerPaused := True\<rparr>, [])
   \<and> channel_handler decoders0 (consumer0\<lparr>producerPaused := True\<rparr>) ''producerresume'' []
     = (consumer0\<lparr>producerPaused := False\<rparr>,
        [SafeEmit ''producerresume'' No_arg, Observer_SafeEmit ''resume'' No_arg, Invoke 3 No_arg])
   \<and> channel_handler decoders0 (consumer0\<lparr>producerPaused := False\<rparr>) ''producerresume'' []
     = (consumer0\<lparr>producerPaused := False\<rparr>, [])"
  using producer_notification_redelivery [where d = decoders0 and c = consumer0
      and dat = "[]" and dat' = "[]"]
    producer_notification_redelivery [where d = decoders0
      and c = "consumer0\<lparr>producerPaused := True\<rparr>" and dat = "[]" and dat' = "[]"]
  by (simp add: ex_defs channel_handler_def)

text \<open>
  C6. For every consumer, a score notification whose payload decodes to a score
  replaces the stored score by it, whatever was stored before, and changes no other
  field; in particular after the payload \{score 5, producerScore 7, producerScores
  [7, 3]\} the getter returns exactly that structure. A consumer constructed without an
  initial score starts with Score 10, ProducerScore 10 and no ProducerScores.
\<close>

theorem score_notification_replaces:
  "(json_score d dat = Inr sc \<longrightarrow>
       fst (channel_handler d c ''score'' dat) = c\<lparr>score := sc\<rparr>
     \<and> Consumer_Score (fst (channel_handler d c ''score'' dat)) = sc)
   \<and> (json_score d dat = Inr (Some \<lparr>Score = 5, ProducerScore = 7, ProducerScores = [7, 3]\<rparr>) \<longrightarrow>
       Consumer_Score (fst (channel_handler d c ''score'' dat))
         = Some \<lparr>Score = 5, ProducerScore = 7, ProducerScores = [7, 3]\<rparr>)
   \<and> (p_score params = None \<longrightarrow>
       Consumer_Score (fst (newConsumer params))
         = Some \<lparr>Score = 10, ProducerScore = 10, ProducerScores = []\<rparr>)"
  by (simp add: channel_handler_def Consumer_Score_def newConsumer_def Let_def)

theorem score_notification_replaces_witness:
  "json_score decoders0 [123] = Inr (Some \<lparr>Score = 5, ProducerScore = 7, ProducerScores = [7, 3]\<rparr>)
   \<and> Consumer_Score consumer0 = Some \<lparr>Score = 10, ProducerScore = 10, ProducerScores = []\<rparr>
   \<and> Consumer_Score (fst (channel_handler decoders0 consumer0 ''score'' [123]))
        = Some \<lparr>Score = 5, ProducerScore = 7, ProducerScores = [7, 3]\<rparr>
   \<and> p_score params0 = None
   \<and> Consumer_Score (fst (newConsumer params0))
        = Some \<lparr>Score = 10, ProducerScore = 10, ProducerScores = []\<rparr>"
  using score_notification_replaces [where d = decoders0 and dat = "[123]" and sc = "Some score0"
      and c = consumer0 and params = params0]
  by (simp add: ex_defs Consumer_Score_def)

text \<open>
  C8. For every consumer that is closed, an rtp event handed to the payload handler
  is dropped: the consumer is unchanged and nothing is emitted, logged or called. The
  consumer left by Close, by transportClosed and by a producerclose notification is
  closed, so the rtp event that follows any of them is dropped.
\<close>

theorem rtp_dropped_after_close:
  "(Closed c \<longrightarrow> payload_handler c ''rtp'' dat payload = (c, []))
   \<and> Closed (fst (Close c r))
   \<and> payload_handler (fst (Close c r)) ''rtp'' dat payload = (fst (Close c r), [])
   \<and> Closed (fst (transportClosed c))
   \<and> payload_handler (fst (transportClosed c)) ''rtp'' dat payload = (fst (transportClosed c), [])
   \<and> Closed (fst (channel_handler d c ''producerclose'' dat'))
   \<and> payload_handler (fst (channel_handler d c ''producerclose'' dat')) ''rtp'' dat payload
        = (fst (channel_handler d c ''producerclose'' dat'), [])"
  by (simp add: payload_handler_def Close_def transportClosed_def channel_handler_def
        Closed_def word_greater_zero_iff)

theorem rtp_dropped_after_close_witness:
  "Closed (consumer0\<lparr>closed := 1\<rparr>)
   \<and> payload_handler (consumer0\<lparr>closed := 1\<rparr>) ''rtp'' [] [1, 2, 3] = (consumer0\<lparr>closed := 1\<rparr>, [])
   \<and> fst (Close consumer0 reply_ok) = consumer0\<lparr>closed := 1\<rparr>
   \<and> payload_handler (fst (Close consumer0 reply_ok)) ''rtp'' [] [1, 2, 3]
        = (fst (Close consumer0 reply_ok), [])
   \<and> payload_handler consumer0 ''rtp'' [] [1, 2, 3]
        = (consumer0, [SafeEmit ''rtp'' (Bytes_arg [1, 2, 3]), Invoke 4 (Bytes_arg [1, 2, 3])])"
  using rtp_dropped_after_close [where c = "consumer0\<lparr>closed := 1\<rparr>" and dat = "[]"
      and payload = "[1, 2, 3]"]
    rtp_dropped_after_close [where c = consumer0 and r = reply_ok and dat = "[]"
      and payload = "[1, 2, 3]"]
  by (simp add: ex_defs payload_handler_def Closed_def Close_def)

text \<open>
  C9. For every consumer and every control-channel notification whose event tag is
  none of producerclose, producerpause, producerresume, score, layerschange and trace,
  the handler leaves the consumer unchanged and emits no event (it only logs the
  anomaly); it returns normally, and any notification dispatched next is handled as
  if the unknown one had not arrived.
\<close>

theorem unknown_event_ignored:
  "event \<notin> {''producerclose'', ''producerpause'', ''producerresume'', ''score'',
             ''layerschange'', ''trace''} \<Longrightarrow>
   channel_handler d c event dat
     = (c, [Log_Error None ''ignoring unknown event in channel listener''])
   \<and> channel_handler d (fst (channel_handler d c event dat)) event' dat'
     = channel_handler d c event' dat'"
  by (simp add: channel_handler_def)

theorem unknown_event_ignored_witness:
  "''keyframe'' \<notin> {''producerclose'', ''producerpause'', ''producerresume'', ''score'',
             ''layerschange'', ''trace''}
   \<and> channel_handler decoders0 consumer0 ''keyframe'' [1]
     = (consumer0, [Log_Error None ''ignoring unknown event in channel listener''])
   \<and> fst (channel_handler decoders0 (fst (channel_handler decoders0 consumer0 ''keyframe'' [1]))
        ''producerpause'' []) = consumer0\<lparr>producerPaused := True\<rparr>"
  using unknown_event_ignored [where event = "''keyframe''" and d = decoders0 and c = consumer0
      and dat = "[1]" and event' = "''producerpause''" and dat' = "[]"]
  by (simp add: ex_defs channel_handler_def)

text \<open>
  C10. For every consumer that is already closed, no local call is guarded by the
  closed flag. Pause, Resume, SetPriority, UnsetPriority, SetPreferredLayers,
  RequestKeyFrame, EnableTraceEvent, Dump and GetStats still send their channel
  request; what each returns is the error of the reply, or the outcome of decoding
  it, and never a closed-state error; and local state is still mutated: a successful
  reply makes Pause set paused and Resume clear it, SetPriority and UnsetPriority
  store the priority the reply decodes to (and leave the consumer as it was when
  decoding fails), SetPreferredLayers stores the layers the reply decodes to, and the
  other calls leave the consumer unchanged. Each call does on the closed consumer
  exactly what it does on the same consumer with closed reset to 0.
\<close>

theorem closed_consumer_calls_unguarded:
  "Closed c \<Longrightarrow>
     Channel_Request ''consumer.pause'' (internal c) No_data \<in> set (fst (snd (Pause c r)))
   \<and> snd (snd (Pause c r)) = Err r
   \<and> (Err r = None \<longrightarrow> fst (Pause c r) = c\<lparr>paused := True\<rparr>)
   \<and> (Err r \<noteq> None \<longrightarrow> fst (Pause c r) = c)
   \<and> Channel_Request ''consumer.resume'' (internal c) No_data \<in> set (fst (snd (Resume c r)))
   \<and> snd (snd (Resume c r)) = Err r
   \<and> (Err r = None \<longrightarrow> fst (Resume c r) = c\<lparr>paused := False\<rparr>)
   \<and> (Err r \<noteq> None \<longrightarrow> fst (Resume c r) = c)
   \<and> Channel_Request ''consumer.setPriority'' (internal c) (Priority_data p)
        \<in> set (fst (snd (SetPriority d c p r)))
   \<and> (unmarshal_priority d r = Inr q \<longrightarrow>
        fst (SetPriority d c p r) = c\<lparr>priority := q\<rparr> \<and> snd (snd (SetPriority d c p r)) = None)
   \<and> (unmarshal_priority d r = Inl e \<longrightarrow>
        fst (SetPriority d c p r) = c \<and> snd (snd (SetPriority d c p r)) = Some e)
   \<and> Channel_Request ''consumer.setPriority'' (internal c) (Priority_data 1)
        \<in> set (fst (snd (UnsetPriority d c r)))
   \<and> (unmarshal_priority d r = Inr q \<longrightarrow>
        fst (UnsetPriority d c r) = c\<lparr>priority := q\<rparr> \<and> snd (snd (UnsetPriority d c r)) = None)
   \<and> (unmarshal_priority d r = Inl e \<longrightarrow>
        fst (UnsetPriority d c r) = c \<and> snd (snd (UnsetPriority d c r)) = Some e)
   \<and> Channel_Request ''consumer.setPreferredLayers'' (internal c) (Layers_data layers)
        \<in> set (fst (snd (SetPreferredLayers d c layers r)))
   \<and> fst (SetPreferredLayers d c layers r)
        = c\<lparr>preferredLayers := snd (unmarshal_layers d r (preferredLayers c))\<rparr>
   \<and> snd (snd (SetPreferredLayers d c layers r)) = fst (unmarshal_layers d r (preferredLayers c))
   \<and> Channel_Request ''consumer.requestKeyFrame'' (internal c) No_data
        \<in> set (fst (snd (RequestKeyFrame c r)))
   \<and> fst (RequestKeyFrame c r) = c
   \<and> snd (snd (RequestKeyFrame c r)) = Err r
   \<and> Channel_Request ''consumer.enableTraceEvent'' (internal c)
        (Types_data (case types of None \<Rightarrow> [] | Some ts \<Rightarrow> ts))
        \<in> set (fst (snd (EnableTraceEvent c types r)))
   \<and> fst (EnableTraceEvent c types r) = c
   \<and> snd (snd (EnableTraceEvent c types r)) = Err r
   \<and> Channel_Request ''consumer.dump'' (internal c) No_data \<in> set (fst (snd (Dump d c r)))
   \<and> fst (Dump d c r) = c
   \<and> snd (snd (Dump d c r)) = unmarshal_dump d r
   \<and> Channel_Request ''consumer.getStats'' (internal c) No_data
        \<in> set (fst (snd (GetStats d c r)))
   \<and> fst (GetStats d c r) = c
   \<and> snd (snd (GetStats d c r)) = unmarshal_stats d r
   \<and> Pause c r
        = (case Pause (c\<lparr>closed := 0\<rparr>) r of (c', es, e) \<Rightarrow> (c'\<lparr>closed := closed c\<rparr>, es, e))
   \<and> Resume c r
        = (case Resume (c\<lparr>closed := 0\<rparr>) r of (c', es, e) \<Rightarrow> (c'\<lparr>closed := closed c\<rparr>, es, e))
   \<and> SetPriority d c p r
        = (case SetPriority d (c\<lparr>closed := 0\<rparr>) p r of
             (c', es, e) \<Rightarrow> (c'\<lparr>closed := closed c\<rparr>, es, e))
   \<and> UnsetPriority d c r
        = (case UnsetPriority d (c\<lparr>closed := 0\<rparr>) r of
             (c', es, e) \<Rightarrow> (c'\<lparr>closed := closed c\<rparr>, es, e))
   \<and> SetPreferredLayers d c layers r
        = (case SetPreferredLayers d (c\<lparr>closed := 0\<rparr>) layers r of
             (c', es, e) \<Rightarrow> (c'\<lparr>closed := closed c\<rparr>, es, e))
   \<and> RequestKeyFrame c r
        = (case RequestKeyFrame (c\<lparr>closed := 0\<rparr>) r of
             (c', es, e) \<Rightarrow> (c'\<lparr>closed := closed c\<rparr>, es, e))
   \<and> EnableTraceEvent c types r
        = (case EnableTraceEvent (c\<lparr>closed := 0\<rparr>) types r of
             (c', es, e) \<Rightarrow> (c'\<lparr>closed := closed c\<rparr>, es, e))
   \<and> Dump d c r
        = (case Dump d (c\<lparr>closed := 0\<rparr>) r of (c', es, e) \<Rightarrow> (c'\<lparr>closed := closed c\<rparr>, es, e))
   \<and> GetStats d c r
        = (case GetStats d (c\<lparr>closed := 0\<rparr>) r of (c', es, e) \<Rightarrow> (c'\<lparr>closed := closed c\<rparr>, es, e))"
  by (intro conjI Pause_Resume_any_closed SetPriority_any_closed requests_any_closed
        closed_flag_not_read)

theorem closed_consumer_calls_unguarded_witness:
  "Closed (fst (Close consumer0 reply_ok))
   \<and> Err reply_ok = None
   \<and> fst (Pause (fst (Close consumer0 reply_ok)) reply_ok)
        = consumer0\<lparr>closed := 1, paused := True\<rparr>
   \<and> snd (snd (Pause (fst (Close consumer0 reply_ok)) reply_ok)) = None
   \<and> unmarshal_priority decoders1 reply_ok = Inr 3
   \<and> Priority (fst (SetPriority decoders1 (fst (Close consumer0 reply_ok)) 7 reply_ok)) = 3
   \<and> snd (snd (SetPriority decoders1 (fst (Close consumer0 reply_ok)) 7 reply_ok)) = None
   \<and> Priority (fst (UnsetPriority decoders1 (fst (Close consumer0 reply_ok)) reply_ok)) = 3
   \<and> preferredLayers (fst (SetPreferredLayers decoders1 (fst (Close consumer0 reply_ok))
        \<lparr>SpatialLayer = 2, TemporalLayer = 1\<rparr> reply_ok))
        = Some \<lparr>SpatialLayer = 2, TemporalLayer = 1\<rparr>
   \<and> snd (snd (SetPreferredLayers decoders1 (fst (Close consumer0 reply_ok))
        \<lparr>SpatialLayer = 2, TemporalLayer = 1\<rparr> reply_ok)) = None
   \<and> snd (snd (Dump decoders1 (fst (Close consumer0 reply_ok)) reply_ok)) = (None, None)
   \<and> unmarshal_priority decoders1 reply_failed = Inl ''request timeout''
   \<and> snd (snd (SetPriority decoders1 (fst (Close consumer0 reply_ok)) 7 reply_failed))
        = Some ''request timeout''"
proof -
  let ?c = "fst (Close consumer0 reply_ok)"
  let ?l = "\<lparr>SpatialLayer = 2, TemporalLayer = 1\<rparr>"
  have h: "Closed ?c" by (simp add: ex_defs Close_def Closed_def)
  have cc: "?c = consumer0\<lparr>closed := 1\<rparr>" by (simp add: ex_defs Close_def)
  have e1: "Err reply_ok = None" by (simp add: ex_defs)
  have p1: "unmarshal_priority decoders1 reply_ok = Inr 3"
    and p2: "unmarshal_priority decoders1 reply_failed = Inl ''request timeout''"
    and l1: "unmarshal_layers decoders1 reply_ok (preferredLayers ?c) = (None, Some ?l)"
    and d1: "unmarshal_dump decoders1 reply_ok = (None, None)"
    by (simp_all add: decoders1_def decoders0_def reply_ok_def reply_failed_def)
  note A = closed_consumer_calls_unguarded [OF h, where r = reply_ok and d = decoders1
      and p = 7 and q = 3 and e = "[]" and layers = ?l and types = None]
  note B = closed_consumer_calls_unguarded [OF h, where r = reply_failed and d = decoders1
      and p = 7 and q = 3 and e = "''request timeout''" and layers = ?l and types = None]
  from A e1 have a1: "fst (Pause ?c reply_ok) = ?c\<lparr>paused := True\<rparr>" by blast
  from A e1 have a2: "snd (snd (Pause ?c reply_ok)) = None" by metis
  from A p1 have a3: "fst (SetPriority decoders1 ?c 7 reply_ok) = ?c\<lparr>priority := 3\<rparr>"
    by blast
  from A p1 have a4: "snd (snd (SetPriority decoders1 ?c 7 reply_ok)) = None" by blast
  from A p1 have a5: "fst (UnsetPriority decoders1 ?c reply_ok) = ?c\<lparr>priority := 3\<rparr>"
    by blast
  from A l1 have a6: "fst (SetPreferredLayers decoders1 ?c ?l reply_ok)
                        = ?c\<lparr>preferredLayers := Some ?l\<rparr>" by (metis snd_conv)
  from A l1 have a7: "snd (snd (SetPreferredLayers decoders1 ?c ?l reply_ok)) = None"
    by (metis fst_conv)
  from A d1 have a8: "snd (snd (Dump decoders1 ?c reply_ok)) = (None, None)" by metis
  from B p2 have b1: "snd (snd (SetPriority decoders1 ?c 7 reply_failed)) = Some ''request timeout''"
    by blast
  from a1 cc have a1': "fst (Pause ?c reply_ok) = consumer0\<lparr>closed := 1, paused := True\<rparr>"
    by simp
  from h e1 a1' a2 p1 a3 a4 a5 a6 a7 a8 p2 b1 show ?thesis
    by (simp add: Priority_def)
qed

text \<open>
  C7, as the spec states it, fails. Serialized would mean that a Pause and a
  notification handler running at the same time leave the effects of one of them
  running wholly before the other. A producerpause notification handled while Pause
  waits for its reply, on a consumer with both flags false, falls between the read of
  the flags and the write of paused: the handler emits the observer pause event, and
  Pause, still holding wasPaused = false, emits it a second time. Either serial order
  emits it once.
\<close>

theorem Pause_overlap_counterexample:
  "count_list (fst (snd (Pause_overlapped decoders0 consumer0 [(''producerpause'', [])] reply_ok)))
     (Observer_SafeEmit ''pause'' No_arg) = 2
   \<and> count_list (fst (snd (deliver_then_Pause decoders0 consumer0 [(''producerpause'', [])] reply_ok)))
     (Observer_SafeEmit ''pause'' No_arg) = 1
   \<and> count_list (fst (snd (Pause_then_deliver decoders0 consumer0 [(''producerpause'', [])] reply_ok)))
     (Observer_SafeEmit ''pause'' No_arg) = 1"
  by code_simp

text \<open>
  C7, amended. The consumer has no mutual-exclusion domain: Pause and Resume read the
  pause flags before their blocking request and write paused after it, and the
  notification handlers run without a lock. What holds is a separation of writers:
  the notification handlers never write paused, Pause and Resume never write
  producerPaused or closed. So for every consumer and every list of notifications
  handled between the read and the write of a Pause or Resume, the fields end as in
  the serial execution (the notifications, then the call); the effects are those of
  that serial execution, up to their order, whenever the notifications leave
  producerPaused as the call read it; and with no notification in between the split
  call is exactly Pause, respectively Resume.
\<close>

theorem pause_flags_single_writer:
  "Pause_overlapped d c [] r = Pause c r
   \<and> Resume_overlapped d c [] r = Resume c r
   \<and> paused (fst (deliver d c ns)) = paused c
   \<and> producerPaused (fst (Pause c r)) = producerPaused c
   \<and> closed (fst (Pause c r)) = closed c
   \<and> producerPaused (fst (Resume c r)) = producerPaused c
   \<and> closed (fst (Resume c r)) = closed c
   \<and> fst (Pause_overlapped d c ns r) = fst (deliver_then_Pause d c ns r)
   \<and> fst (Resume_overlapped d c ns r) = fst (deliver_then_Resume d c ns r)
   \<and> (producerPaused (fst (deliver d c ns)) = producerPaused c \<longrightarrow>
        (\<forall>e. count_list (fst (snd (Pause_overlapped d c ns r))) e
              = count_list (fst (snd (deliver_then_Pause d c ns r))) e)
      \<and> (\<forall>e. count_list (fst (snd (Resume_overlapped d c ns r))) e
              = count_list (fst (snd (deliver_then_Resume d c ns r))) e))"
proof -
  obtain c1 es1 where dl: "deliver d c ns = (c1, es1)" by (cases "deliver d c ns")
  from deliver_keeps [of d c ns] dl
  have k: "paused c1 = paused c" "internal c1 = internal c" "onPause c1 = onPause c"
    "onResume c1 = onResume c" by simp_all
  have a: "Pause_overlapped d c [] r = Pause c r"
    by (simp add: Pause_overlapped_def Pause_split split: prod.splits)
  have b: "Resume_overlapped d c [] r = Resume c r"
    by (simp add: Resume_overlapped_def Resume_split split: prod.splits)
  have w: "producerPaused (fst (Pause c r)) = producerPaused c
     \<and> closed (fst (Pause c r)) = closed c
     \<and> producerPaused (fst (Resume c r)) = producerPaused c
     \<and> closed (fst (Resume c r)) = closed c"
    by (simp add: Pause_def Resume_def Let_def split: option.splits)
  have s1: "fst (Pause_overlapped d c ns r) = fst (deliver_then_Pause d c ns r)"
    by (simp add: Pause_overlapped_def deliver_then_Pause_def dl Pause_read_def Pause_write_def
        Pause_def Let_def split: option.splits)
  have s2: "fst (Resume_overlapped d c ns r) = fst (deliver_then_Resume d c ns r)"
    by (simp add: Resume_overlapped_def deliver_then_Resume_def dl Resume_read_def
        Resume_write_def Resume_def Let_def split: option.splits)
  have e1: "count_list (fst (snd (Pause_overlapped d c ns r))) e
              = count_list (fst (snd (deliver_then_Pause d c ns r))) e"
    if "producerPaused c1 = producerPaused c" for e
    using that k
    by (auto simp: Pause_overlapped_def deliver_then_Pause_def dl Pause_read_def Pause_write_def
        Pause_def Let_def split: option.splits)
  have e2: "count_list (fst (snd (Resume_overlapped d c ns r))) e
              = count_list (fst (snd (deliver_then_Resume d c ns r))) e"
    if "producerPaused c1 = producerPaused c" for e
    using that k
    by (auto simp: Resume_overlapped_def deliver_then_Resume_def dl Resume_read_def
        Resume_write_def Resume_def Let_def split: option.splits)
  from a b w s1 s2 e1 e2 k(1) dl show ?thesis by simp
qed

theorem pause_flags_single_writer_witness:
  "producerPaused (fst (deliver decoders0 consumer0 [(''score'', [123])])) = producerPaused consumer0
   \<and> fst (Pause_overlapped decoders0 consumer0 [(''score'', [123])] reply_ok)
       = fst (deliver_then_Pause decoders0 consumer0 [(''score'', [123])] reply_ok)
   \<and> count_list (fst (snd (Pause_overlapped decoders0 consumer0 [(''score'', [123])] reply_ok)))
        (Observer_SafeEmit ''pause'' No_arg)
       = count_list (fst (snd (deliver_then_Pause decoders0 consumer0 [(''score'', [123])] reply_ok)))
        (Observer_SafeEmit ''pause'' No_arg)
   \<and> count_list (fst (snd (Pause_overlapped decoders0 consumer0 [(''score'', [123])] reply_ok)))
        (Observer_SafeEmit ''pause'' No_arg) = 1"
  using pause_flags_single_writer [where d = decoders0 and c = consumer0
      and ns = "[(''score'', [123])]" and r = reply_ok]
    overlap_score_eval
  by simp

end
